theory Spec2Isabelle
  imports Complex_Main "HOL-Library.Multiset"
begin

section \<open>Meridian paper trading: numbers, times and the data model\<close>

subsection \<open>JavaScript numbers\<close>

text \<open>
  The TypeScript sources compute with the JavaScript type \<open>number\<close>, the IEEE double.
  A \<open>jsnum\<close> is a finite double (\<open>Num\<close> of the real it denotes), an infinity or
  \<open>NaN\<close>. The two zeros are one value: the sign of a zero is not modelled, and a division
  by zero takes the divisor as \<open>+0\<close>.

  The rounding of an exact result to a double belongs to the runtime and is a parameter
  of the model: \<open>rnd rt x\<close> is the finite double nearest to the real \<open>x\<close>, or \<open>None\<close>
  when \<open>x\<close> is beyond the range of the doubles and the operation overflows to an
  infinity. Every arithmetic operation of the source rounds its exact result with it; a
  numeric literal that is not a double itself (\<open>0.001\<close>, \<open>1.2\<close>) is the rounding of its
  decimal value. Comparisons, \<open>Math.min\<close>, \<open>Math.max\<close>, \<open>Math.abs\<close> and \<open>Math.floor\<close> are
  exact, and follow IEEE on infinities and \<open>NaN\<close>.

  The runtime also gives the string conversions that the source uses in its messages
  (\<open>String(n)\<close> in a template literal, \<open>Number.toFixed\<close>, the date part of
  \<open>Date.toISOString\<close>) and the calendar arithmetic of \<open>Date.setDate\<close>, which works in
  the local time of the host.
\<close>

datatype jsnum = Num real | PosInf | NegInf | NaN

text \<open>
  An ISO timestamp string of the source (the result of \<open>Date.toISOString\<close>) is represented
  by the epoch milliseconds it denotes, \<open>new Date(s).getTime()\<close>, an integer; its date
  part \<open>s.split('T')[0]\<close> is represented by the UTC day number of that instant. The
  clock (\<open>new Date()\<close>, \<open>Date.now()\<close>) and the fresh identifier (\<open>randomUUID()\<close>) are
  arguments of the functions that read them.
\<close>

type_synonym time = int

text \<open>
  \<open>setDate rt t n\<close> is the date \<open>d\<close> after \<open>d = new Date(t); d.setDate(d.getDate() + n)\<close>,
  or \<open>None\<close> when that is an invalid date.
\<close>

record Runtime =
  rnd :: "real \<Rightarrow> real option"
  numStr :: "jsnum \<Rightarrow> string"
  toFixed :: "jsnum \<Rightarrow> nat \<Rightarrow> string"
  isoDateStr :: "time \<Rightarrow> string"
  setDate :: "time \<Rightarrow> jsnum \<Rightarrow> time option"

text \<open>
  The rounding of an exact result. A whole number of magnitude at most \<open>2^53\<close> is a double
  and is its own rounding, on every runtime; any other result is rounded by the runtime.
\<close>

definition js_rnd :: "Runtime \<Rightarrow> real \<Rightarrow> jsnum" where
  "js_rnd rt x =
     (if x = of_int \<lfloor>x\<rfloor> \<and> \<bar>x\<bar> \<le> 2 ^ 53 then Num x
      else case rnd rt x of Some y \<Rightarrow> Num y | None \<Rightarrow> if x < 0 then NegInf else PosInf)"

fun js_neg :: "jsnum \<Rightarrow> jsnum" where
  "js_neg (Num a) = Num (- a)"
| "js_neg PosInf = NegInf"
| "js_neg NegInf = PosInf"
| "js_neg NaN = NaN"

fun js_abs :: "jsnum \<Rightarrow> jsnum" where
  "js_abs (Num a) = Num \<bar>a\<bar>"
| "js_abs PosInf = PosInf"
| "js_abs NegInf = PosInf"
| "js_abs NaN = NaN"

fun js_floor :: "jsnum \<Rightarrow> jsnum" where
  "js_floor (Num a) = Num (of_int \<lfloor>a\<rfloor>)"
| "js_floor PosInf = PosInf"
| "js_floor NegInf = NegInf"
| "js_floor NaN = NaN"

text \<open>The sign of a number that is not \<open>NaN\<close>, and the infinity of a sign.\<close>

fun js_sgn :: "jsnum \<Rightarrow> int" where
  "js_sgn (Num a) = (if a > 0 then 1 else if a < 0 then - 1 else 0)"
| "js_sgn PosInf = 1"
| "js_sgn NegInf = - 1"
| "js_sgn NaN = 0"

definition js_inf :: "int \<Rightarrow> jsnum" where
  "js_inf s = (if s > 0 then PosInf else if s < 0 then NegInf else NaN)"

fun js_add :: "Runtime \<Rightarrow> jsnum \<Rightarrow> jsnum \<Rightarrow> jsnum" where
  "js_add rt (Num a) (Num b) = js_rnd rt (a + b)"
| "js_add rt NaN y = NaN"
| "js_add rt x NaN = NaN"
| "js_add rt PosInf NegInf = NaN"
| "js_add rt NegInf PosInf = NaN"
| "js_add rt PosInf y = PosInf"
| "js_add rt x PosInf = PosInf"
| "js_add rt NegInf y = NegInf"
| "js_add rt x NegInf = NegInf"

definition js_sub :: "Runtime \<Rightarrow> jsnum \<Rightarrow> jsnum \<Rightarrow> jsnum" where
  "js_sub rt x y = js_add rt x (js_neg y)"

definition js_mul :: "Runtime \<Rightarrow> jsnum \<Rightarrow> jsnum \<Rightarrow> jsnum" where
  "js_mul rt x y =
     (if x = NaN \<or> y = NaN then NaN
      else case (x, y) of
             (Num a, Num b) \<Rightarrow> js_rnd rt (a * b)
           | _ \<Rightarrow> js_inf (js_sgn x * js_sgn y))"

definition js_div :: "Runtime \<Rightarrow> jsnum \<Rightarrow> jsnum \<Rightarrow> jsnum" where
  "js_div rt x y =
     (if x = NaN \<or> y = NaN then NaN
      else case (x, y) of
             (Num a, Num b) \<Rightarrow> if b \<noteq> 0 then js_rnd rt (a / b) else js_inf (js_sgn x)
           | (Num a, _) \<Rightarrow> Num 0
           | (_, Num b) \<Rightarrow> js_inf (js_sgn x * (if b < 0 then - 1 else 1))
           | _ \<Rightarrow> NaN)"

text \<open>\<open>Math.sqrt(x)\<close> and \<open>Math.pow(x, 2)\<close>\<close>

fun js_sqrt :: "Runtime \<Rightarrow> jsnum \<Rightarrow> jsnum" where
  "js_sqrt rt (Num a) = (if a < 0 then NaN else js_rnd rt (sqrt a))"
| "js_sqrt rt PosInf = PosInf"
| "js_sqrt rt NegInf = NaN"
| "js_sqrt rt NaN = NaN"

fun js_pow2 :: "Runtime \<Rightarrow> jsnum \<Rightarrow> jsnum" where
  "js_pow2 rt (Num a) = js_rnd rt (a ^ 2)"
| "js_pow2 rt PosInf = PosInf"
| "js_pow2 rt NegInf = PosInf"
| "js_pow2 rt NaN = NaN"

text \<open>The comparisons \<open><\<close>, \<open><=\<close>, \<open>>\<close>, \<open>>=\<close> and \<open>===\<close>: all false on \<open>NaN\<close>.\<close>

fun js_lt :: "jsnum \<Rightarrow> jsnum \<Rightarrow> bool" where
  "js_lt (Num a) (Num b) = (a < b)"
| "js_lt NaN y = False"
| "js_lt x NaN = False"
| "js_lt NegInf NegInf = False"
| "js_lt NegInf y = True"
| "js_lt x NegInf = False"
| "js_lt PosInf y = False"
| "js_lt x PosInf = True"

definition js_eq :: "jsnum \<Rightarrow> jsnum \<Rightarrow> bool" where
  "js_eq x y = (x = y \<and> x \<noteq> NaN)"

definition js_le :: "jsnum \<Rightarrow> jsnum \<Rightarrow> bool" where
  "js_le x y = (js_lt x y \<or> js_eq x y)"

definition js_gt :: "jsnum \<Rightarrow> jsnum \<Rightarrow> bool" where
  "js_gt x y = js_lt y x"

definition js_ge :: "jsnum \<Rightarrow> jsnum \<Rightarrow> bool" where
  "js_ge x y = js_le y x"

text \<open>\<open>Math.min(x, y)\<close> and \<open>Math.max(x, y)\<close>: \<open>NaN\<close> when an argument is \<open>NaN\<close>.\<close>

definition js_min :: "jsnum \<Rightarrow> jsnum \<Rightarrow> jsnum" where
  "js_min x y = (if x = NaN \<or> y = NaN then NaN else if js_lt y x then y else x)"

definition js_max :: "jsnum \<Rightarrow> jsnum \<Rightarrow> jsnum" where
  "js_max x y = (if x = NaN \<or> y = NaN then NaN else if js_lt x y then y else x)"

text \<open>The number of an array length, and of a difference of two epoch times.\<close>

definition ofNat :: "nat \<Rightarrow> jsnum" where
  "ofNat n = Num (real n)"

definition ofInt :: "int \<Rightarrow> jsnum" where
  "ofInt k = Num (real_of_int k)"

definition MS_PER_HOUR :: int where
  "MS_PER_HOUR = 1000 * 60 * 60"

definition MS_PER_DAY :: int where
  "MS_PER_DAY = 24 * 60 * 60 * 1000"

definition isoDay :: "time \<Rightarrow> int" where
  "isoDay t = t div MS_PER_DAY"

subsection \<open>types.ts\<close>

datatype TradeStatus = OPEN | CLOSED

datatype TradeDirection = LONG | SHORT

datatype AlertType = mean_reversion | spread_harvest

datatype ExitReason = TIME_BASED | MANUAL | STOP_LOSS

record PaperTrade =
  tradeId :: string
  coin :: string
  direction :: TradeDirection
  strategy :: AlertType
  status :: TradeStatus
  entryTime :: time
  entryApr :: jsnum
  entryImpliedApr :: jsnum
  entryZScore :: jsnum
  notionalSize :: jsnum
  leverage :: jsnum
  targetHoldDays :: jsnum
  scheduledExitTime :: time
  exitTime :: "time option"
  exitApr :: "jsnum option"
  exitZScore :: "jsnum option"
  exitReason :: "ExitReason option"
  realizedPnl :: "jsnum option"
  unrealizedPnl :: jsnum
  fees :: jsnum

record PaperState =
  openPositions :: "string list"
  currentEquity :: jsnum
  startingCapital :: jsnum
  peakEquity :: jsnum
  lastUpdated :: time

record RiskConfig =
  maxPositionSize :: jsnum
  maxConcurrentPositions :: jsnum
  maxTotalExposure :: jsnum
  stopLossThreshold :: jsnum
  maxDrawdown :: jsnum
  maxLeverage :: jsnum
  consecutiveLossLimit :: jsnum
  cooldownDays :: jsnum

record TradeAlert =
  alertType :: AlertType
  alertCoin :: string
  alertDirection :: TradeDirection
  currentApr :: jsnum
  impliedApr :: jsnum
  zScore :: jsnum
  meanApr :: jsnum
  stdDev :: jsnum
  spread :: jsnum
  holdDays :: jsnum
  timestamp :: time

record DailySnapshot =
  date :: int
  equity :: jsnum
  dailyPnl :: jsnum
  openPositionsCount :: nat
  rolling7dWinRate :: jsnum
  rolling7dSharpe :: jsnum

section \<open>leverage.ts\<close>

text \<open>
  \<open>LeverageStrategy\<close> is a union of four string literals, and \<open>calculateLeverage\<close>
  switches on the string with a \<open>default\<close> branch; the selector is kept as a string so
  that the unmapped case exists in the model. \<open>fixedLeverage\<close> and \<open>maxLeverage\<close> (here
  \<open>leverageCap\<close>) come from \<open>parseFloat\<close>, which gives \<open>NaN\<close> on a value that does not
  parse.
\<close>

record LeverageConfig =
  leverageStrategy :: string
  fixedLeverage :: jsnum
  leverageCap :: jsnum

definition signalStrengthLeverage :: "jsnum \<Rightarrow> jsnum" where
  "signalStrengthLeverage z =
     (let absZ = js_abs z in
      if js_ge absZ (Num 3.0) then Num 6
      else if js_ge absZ (Num 2.5) then Num 4
      else if js_ge absZ (Num 2.0) then Num 2
      else Num 1)"

definition profitStackMultiplier :: "Runtime \<Rightarrow> jsnum \<Rightarrow> jsnum \<Rightarrow> jsnum" where
  "profitStackMultiplier rt cur start =
     (let ratio = js_div rt cur start in
      if js_ge ratio (js_rnd rt 1.2) then Num 1.5
      else if js_ge ratio (js_rnd rt 1.1) then Num 1.25
      else if js_le ratio (js_rnd rt 0.9) then Num 0.5
      else Num 1.0)"

definition calculateLeverage ::
  "Runtime \<Rightarrow> LeverageConfig \<Rightarrow> jsnum \<Rightarrow> jsnum \<Rightarrow> jsnum \<Rightarrow> jsnum" where
  "calculateLeverage rt config z cur start =
     (let lev =
        (if leverageStrategy config = ''fixed'' then fixedLeverage config
         else if leverageStrategy config = ''signal_strength'' then signalStrengthLeverage z
         else if leverageStrategy config = ''profit_stack''
           then js_mul rt (Num 2) (profitStackMultiplier rt cur start)
         else if leverageStrategy config = ''combined''
           then js_mul rt (signalStrengthLeverage z) (profitStackMultiplier rt cur start)
         else Num 1);
        lev1 = js_min lev (leverageCap config);
        lev2 = js_max lev1 (Num 1)
      in lev2)"

text \<open>The sigma of the messages, as its two UTF-8 bytes.\<close>

definition sigma :: string where
  "sigma = [CHR 0xCF, CHR 0x83]"

definition describeLeverage ::
  "Runtime \<Rightarrow> LeverageConfig \<Rightarrow> jsnum \<Rightarrow> jsnum \<Rightarrow> jsnum \<Rightarrow> string" where
  "describeLeverage rt config z cur start =
     (let lev = calculateLeverage rt config z cur start;
          absZ = js_abs z;
          profitRatio = js_mul rt (js_sub rt (js_div rt cur start) (Num 1)) (Num 100);
          sign = (if js_ge profitRatio (Num 0) then ''+'' else [])
      in if leverageStrategy config = ''fixed'' then numStr rt lev @ ''x (fixed)''
         else if leverageStrategy config = ''signal_strength''
           then numStr rt lev @ ''x ('' @ toFixed rt absZ 1 @ sigma @ '' signal)''
         else if leverageStrategy config = ''profit_stack''
           then numStr rt lev @ ''x ('' @ sign @ toFixed rt profitRatio 1 @ ''% equity)''
         else if leverageStrategy config = ''combined''
           then numStr rt lev @ ''x ('' @ toFixed rt absZ 1 @ sigma @ '' + '' @ sign
                  @ toFixed rt profitRatio 1 @ ''% equity)''
         else numStr rt lev @ ''x'')"

section \<open>tracker.ts\<close>

definition DEFAULT_STARTING_CAPITAL :: jsnum where
  "DEFAULT_STARTING_CAPITAL = Num 10000"

definition DEFAULT_POSITION_SIZE :: jsnum where
  "DEFAULT_POSITION_SIZE = Num 1000"

definition TAKER_FEE_RATE :: "Runtime \<Rightarrow> jsnum" where
  "TAKER_FEE_RATE rt = js_rnd rt 0.001"

subsection \<open>Persistence\<close>

text \<open>
  The directory \<open>data/\<close> (\<open>dataDir\<close>: whether it exists) and its four JSON files. \<open>None\<close>
  is a file that does not exist or does not parse: the loaders then start fresh. The
  writers of \<open>tracker.ts\<close> create the directory first (\<open>ensureDataDir\<close>); a write into
  a directory that does not exist raises \<open>ENOENT\<close>. Other failures of the file system
  are outside the model. A file holds the objects as they were written: that
  \<open>JSON.stringify\<close> writes \<open>NaN\<close> and the infinities as \<open>null\<close> is not modelled.
\<close>

datatype js_error = TypeError | RangeError | ENOENT

type_synonym AlertLogEntry = "time \<times> string \<times> TradeDirection \<times> AlertType"

record Disk =
  dataDir :: bool
  tradesFile :: "PaperTrade list option"
  stateFile :: "PaperState option"
  snapshotsFile :: "DailySnapshot list option"
  alertsLogFile :: "AlertLogEntry list option"

definition ensureDataDir :: "Disk \<Rightarrow> Disk" where
  "ensureDataDir d = d\<lparr>dataDir := True\<rparr>"

definition loadTrades :: "Disk \<Rightarrow> PaperTrade list" where
  "loadTrades d = (case tradesFile d of Some ts \<Rightarrow> ts | None \<Rightarrow> [])"

definition saveTrades :: "PaperTrade list \<Rightarrow> Disk \<Rightarrow> Disk" where
  "saveTrades ts d = (ensureDataDir d)\<lparr>tradesFile := Some ts\<rparr>"

definition initialState :: "jsnum \<Rightarrow> time \<Rightarrow> PaperState" where
  "initialState c now =
     \<lparr>openPositions = [], currentEquity = c, startingCapital = c, peakEquity = c,
      lastUpdated = now\<rparr>"

definition loadState :: "time \<Rightarrow> Disk \<Rightarrow> PaperState" where
  "loadState now d =
     (case stateFile d of Some s \<Rightarrow> s | None \<Rightarrow> initialState DEFAULT_STARTING_CAPITAL now)"

text \<open>\<open>saveState\<close> stamps the state object it is given and writes it.\<close>

definition saveState :: "time \<Rightarrow> PaperState \<Rightarrow> Disk \<Rightarrow> PaperState \<times> Disk" where
  "saveState now s d =
     (let s' = s\<lparr>lastUpdated := now\<rparr> in (s', (ensureDataDir d)\<lparr>stateFile := Some s'\<rparr>))"

definition logAlert :: "time \<Rightarrow> TradeAlert \<Rightarrow> Disk \<Rightarrow> Disk" where
  "logAlert now alert d =
     (let alerts = (case alertsLogFile d of Some xs \<Rightarrow> xs | None \<Rightarrow> [])
      in (ensureDataDir d)\<lparr>alertsLogFile :=
             Some (alerts @ [(now, alertCoin alert, alertDirection alert, alertType alert)])\<rparr>)"

definition getTotalAlerts :: "Disk \<Rightarrow> nat" where
  "getTotalAlerts d = (case alertsLogFile d of Some xs \<Rightarrow> length xs | None \<Rightarrow> 0)"

subsection \<open>Helpers for the array methods\<close>

text \<open>\<open>xs.reduce((sum, t) => sum + f(t), 0)\<close>\<close>

definition sumBy :: "Runtime \<Rightarrow> ('a \<Rightarrow> jsnum) \<Rightarrow> 'a list \<Rightarrow> jsnum" where
  "sumBy rt f xs = foldl (\<lambda>sum t. js_add rt sum (f t)) (Num 0) xs"

text \<open>
  \<open>xs.slice(start)\<close>: the start is made an integer or an infinity (\<open>NaN\<close> becomes 0, a
  fraction is cut off towards 0); a negative start counts from the end, and \<open>slice(-0)\<close>
  is \<open>slice(0)\<close>, the whole array.
\<close>

fun js_toInteger :: "jsnum \<Rightarrow> jsnum" where
  "js_toInteger (Num a) = Num (of_int (if a \<ge> 0 then \<lfloor>a\<rfloor> else \<lceil>a\<rceil>))"
| "js_toInteger PosInf = PosInf"
| "js_toInteger NegInf = NegInf"
| "js_toInteger NaN = Num 0"

definition sliceFrom :: "jsnum \<Rightarrow> 'a list \<Rightarrow> 'a list" where
  "sliceFrom start xs =
     (let len = int (length xs);
          k = (case js_toInteger start of
                 NegInf \<Rightarrow> 0
               | PosInf \<Rightarrow> len
               | NaN \<Rightarrow> 0
               | Num r \<Rightarrow> if \<lfloor>r\<rfloor> < 0 then max (len + \<lfloor>r\<rfloor>) 0 else min \<lfloor>r\<rfloor> len)
      in drop (nat k) xs)"

text \<open>\<open>t.realizedPnl ?? 0\<close>\<close>

definition pnlOr0 :: "PaperTrade \<Rightarrow> jsnum" where
  "pnlOr0 t = (case realizedPnl t of None \<Rightarrow> Num 0 | Some p \<Rightarrow> p)"

text \<open>\<open>new Date(t.exitTime!)\<close>: \<open>new Date(null)\<close> is the epoch.\<close>

definition exitDate :: "PaperTrade \<Rightarrow> time" where
  "exitDate t = (case exitTime t of None \<Rightarrow> 0 | Some x \<Rightarrow> x)"

subsection \<open>canOpenTrade\<close>

text \<open>
  The only exception the function can raise: with \<open>consecutiveLossLimit = 0\<close> and no closed
  trade on the coin, \<open>recentTrades\<close> is empty, \<open>allLosses\<close> is true and
  \<open>recentTrades[recentTrades.length - 1]\<close> is \<open>undefined\<close>, whose \<open>exitTime\<close> is read.
\<close>

record OpenCheck =
  allowed :: bool
  reason :: "string option"

definition reject :: "string \<Rightarrow> js_error + OpenCheck" where
  "reject msg = Inr \<lparr>allowed = False, reason = Some msg\<rparr>"

definition allow :: "js_error + OpenCheck" where
  "allow = Inr \<lparr>allowed = True, reason = None\<rparr>"

definition getOpenTrades :: "PaperTrade list \<Rightarrow> PaperState \<Rightarrow> PaperTrade list" where
  "getOpenTrades trades state = filter (\<lambda>t. tradeId t \<in> set (openPositions state)) trades"

definition getClosedTrades :: "PaperTrade list \<Rightarrow> PaperTrade list" where
  "getClosedTrades trades = filter (\<lambda>t. status t = CLOSED) trades"

text \<open>
  The last block of \<open>canOpenTrade\<close> (the consecutive losses on the coin) is written as
  definitions of its own: \<open>recentClosed\<close> for the array \<open>recentTrades\<close>, \<open>cooldownReason\<close>
  for the message and \<open>cooldownCheck\<close> for the rest of the function from there. When
  \<open>setDate\<close> leaves an invalid date, \<open>new Date() < cooldownEnd\<close> is false.
\<close>

definition recentClosed :: "PaperTrade list \<Rightarrow> string \<Rightarrow> RiskConfig \<Rightarrow> PaperTrade list" where
  "recentClosed trades c rc =
     sliceFrom (js_neg (consecutiveLossLimit rc))
       (filter (\<lambda>t. coin t = c \<and> status t = CLOSED) trades)"

definition cooldownReason :: "Runtime \<Rightarrow> string \<Rightarrow> time \<Rightarrow> RiskConfig \<Rightarrow> string" where
  "cooldownReason rt c cooldownEnd rc =
     c @ '' on cooldown until '' @ isoDateStr rt cooldownEnd @ '' (''
       @ numStr rt (consecutiveLossLimit rc) @ '' consecutive losses)''"

definition cooldownCheck ::
  "Runtime \<Rightarrow> time \<Rightarrow> PaperTrade list \<Rightarrow> string \<Rightarrow> RiskConfig \<Rightarrow> js_error + OpenCheck" where
  "cooldownCheck rt now trades c rc =
     (let recentTrades = recentClosed trades c rc;
          allLosses = (js_eq (ofNat (length recentTrades)) (consecutiveLossLimit rc)
                       \<and> list_all (\<lambda>t. js_lt (pnlOr0 t) (Num 0)) recentTrades)
      in if allLosses then
           (case rev recentTrades of
              [] \<Rightarrow> Inl TypeError
            | lastLoss # _ \<Rightarrow>
                (case setDate rt (exitDate lastLoss) (cooldownDays rc) of
                   None \<Rightarrow> allow
                 | Some cooldownEnd \<Rightarrow>
                     if now < cooldownEnd
                     then reject (cooldownReason rt c cooldownEnd rc)
                     else allow))
         else allow)"

definition canOpenTrade ::
  "Runtime \<Rightarrow> time \<Rightarrow> PaperState \<Rightarrow> PaperTrade list \<Rightarrow> string \<Rightarrow> RiskConfig
     \<Rightarrow> js_error + OpenCheck" where
  "canOpenTrade rt now state trades c rc =
     (if js_ge (ofNat (length (openPositions state))) (maxConcurrentPositions rc)
      then reject (''Max concurrent positions (''
             @ numStr rt (maxConcurrentPositions rc) @ '') reached'')
      else
        (let openTrades = filter (\<lambda>t. tradeId t \<in> set (openPositions state)) trades;
             hasOpenInCoin = list_ex (\<lambda>t. coin t = c) openTrades
         in if hasOpenInCoin then reject (''Already have open position in '' @ c)
            else
              (let totalExposure = sumBy rt notionalSize openTrades;
                   maxExposure = js_mul rt (currentEquity state) (maxTotalExposure rc)
               in if js_ge totalExposure maxExposure
                  then reject (''Max total exposure (''
                         @ toFixed rt (js_mul rt (maxTotalExposure rc) (Num 100)) 0
                         @ ''%) reached'')
                  else
                    (let currentDrawdown =
                           js_div rt (js_sub rt (peakEquity state) (currentEquity state))
                             (peakEquity state)
                     in if js_ge currentDrawdown (js_abs (maxDrawdown rc))
                        then reject (''Max drawdown (''
                               @ toFixed rt (js_mul rt (maxDrawdown rc) (Num 100)) 0
                               @ ''%) reached - trading paused'')
                        else cooldownCheck rt now trades c rc))))"

subsection \<open>openTrade\<close>

record OpenResult =
  trade :: "PaperTrade option"
  resultReason :: "string option"
  leverageInfo :: "string option"

text \<open>
  \<open>openTrade\<close> mutates the two objects it is given (\<open>state\<close>, \<open>trades\<close>) and the files.
  The model returns the outcome (the returned object, or the exception raised) with the
  state, the ledger and the disk after the call. \<open>leverageConfig\<close> is what
  \<open>loadLeverageConfig()\<close> read from the environment and \<open>newId\<close> what \<open>randomUUID()\<close>
  returned. When \<open>setDate\<close> leaves an invalid date (\<open>holdDays\<close> is \<open>NaN\<close>),
  \<open>exitDate.toISOString()\<close> raises a RangeError while the trade object is built, before
  anything but the alert log has changed.
\<close>

definition openTrade ::
  "Runtime \<Rightarrow> time \<Rightarrow> string \<Rightarrow> LeverageConfig \<Rightarrow> TradeAlert \<Rightarrow> PaperState
     \<Rightarrow> PaperTrade list \<Rightarrow> RiskConfig \<Rightarrow> jsnum option \<Rightarrow> Disk
     \<Rightarrow> (js_error + OpenResult) \<times> PaperState \<times> PaperTrade list \<times> Disk" where
  "openTrade rt now newId leverageConfig alert state trades riskConfig positionSize disk =
     (let disk1 = logAlert now alert disk
      in case canOpenTrade rt now state trades (alertCoin alert) riskConfig of
           Inl e \<Rightarrow> (Inl e, state, trades, disk1)
         | Inr check \<Rightarrow>
             if \<not> allowed check
             then (Inr \<lparr>trade = None, resultReason = reason check, leverageInfo = None\<rparr>,
                   state, trades, disk1)
             else
               (let lev = calculateLeverage rt leverageConfig (zScore alert)
                            (currentEquity state) (startingCapital state);
                    levInfo = describeLeverage rt leverageConfig (zScore alert)
                                (currentEquity state) (startingCapital state);
                    finalLeverage = js_min lev (maxLeverage riskConfig);
                    maxSize = js_mul rt (currentEquity state) (maxPositionSize riskConfig);
                    baseSize = (case positionSize of None \<Rightarrow> DEFAULT_POSITION_SIZE | Some p \<Rightarrow> p);
                    collateral = js_min baseSize maxSize;
                    notional = js_mul rt collateral finalLeverage;
                    entryFee = js_mul rt notional (TAKER_FEE_RATE rt)
                in case setDate rt now (holdDays alert) of
                     None \<Rightarrow> (Inl RangeError, state, trades, disk1)
                   | Some exitAt \<Rightarrow>
                      (let newTrade =
                             \<lparr>tradeId = newId,
                              coin = alertCoin alert,
                              direction = alertDirection alert,
                              strategy = alertType alert,
                              status = OPEN,
                              entryTime = now,
                              entryApr = currentApr alert,
                              entryImpliedApr = impliedApr alert,
                              entryZScore = zScore alert,
                              notionalSize = notional,
                              leverage = finalLeverage,
                              targetHoldDays = holdDays alert,
                              scheduledExitTime = exitAt,
                              exitTime = None,
                              exitApr = None,
                              exitZScore = None,
                              exitReason = None,
                              realizedPnl = None,
                              unrealizedPnl = Num 0,
                              fees = entryFee\<rparr>;
                           state1 = state\<lparr>openPositions :=
                                            openPositions state @ [tradeId newTrade]\<rparr>;
                           trades1 = trades @ [newTrade];
                           disk2 = saveTrades trades1 disk1;
                           (state2, disk3) = saveState now state1 disk2
                       in (Inr \<lparr>trade = Some newTrade, resultReason = None,
                                leverageInfo = Some levInfo\<rparr>,
                           state2, trades1, disk3))))"

subsection \<open>calculatePnl and closeTrade\<close>

definition calculatePnl :: "Runtime \<Rightarrow> PaperTrade \<Rightarrow> jsnum \<Rightarrow> jsnum \<Rightarrow> jsnum" where
  "calculatePnl rt t curApr hoursHeld =
     (let hourlyFixed = js_div rt (entryApr t) (Num 8760);
          hourlyFloating = js_div rt curApr (Num 8760)
      in if direction t = SHORT
         then js_mul rt (js_mul rt (js_sub rt hourlyFixed hourlyFloating) (notionalSize t))
                hoursHeld
         else js_mul rt (js_mul rt (js_sub rt hourlyFloating hourlyFixed) (notionalSize t))
                hoursHeld)"

text \<open>
  \<open>closeTrade(trade, state, trades, ...)\<close> mutates the objects \<open>trade\<close> and \<open>state\<close> and
  writes both files. \<open>closeTradeObj\<close> is what happens to the two objects before the
  files are written. The function checks neither the status of the trade nor its numeric
  arguments.
\<close>

definition closeTradeObj ::
  "Runtime \<Rightarrow> time \<Rightarrow> PaperTrade \<Rightarrow> PaperState \<Rightarrow> jsnum \<Rightarrow> jsnum \<Rightarrow> ExitReason
     \<Rightarrow> PaperTrade \<times> PaperState" where
  "closeTradeObj rt now t state exitApr' exitZScore' exitReason' =
     (let hoursHeld = js_div rt (ofInt (now - entryTime t)) (ofInt MS_PER_HOUR);
          grossPnl = calculatePnl rt t exitApr' hoursHeld;
          exitFee = js_mul rt (notionalSize t) (TAKER_FEE_RATE rt);
          fees1 = js_add rt (fees t) exitFee;
          netPnl = js_sub rt grossPnl fees1;
          t1 = t\<lparr>fees := fees1,
                 status := CLOSED,
                 exitTime := Some now,
                 exitApr := Some exitApr',
                 exitZScore := Some exitZScore',
                 exitReason := Some exitReason',
                 realizedPnl := Some netPnl,
                 unrealizedPnl := Num 0\<rparr>;
          equity1 = js_add rt (currentEquity state) netPnl;
          state1 = state\<lparr>openPositions := filter (\<lambda>i. i \<noteq> tradeId t) (openPositions state),
                         currentEquity := equity1,
                         peakEquity := (if js_gt equity1 (peakEquity state) then equity1
                                        else peakEquity state)\<rparr>
      in (t1, state1))"

text \<open>
  Every caller passes an element of \<open>trades\<close> as \<open>trade\<close> (found by \<open>trades.find\<close> or
  \<open>trades.filter\<close>), so that the ledger sees the mutation: \<open>closeTrade\<close> takes the index
  \<open>i\<close> of that element, and is the call \<open>closeTrade(trades[i], state, trades, ...)\<close>.
  An index outside the ledger denotes no call.
\<close>

definition closeTrade ::
  "Runtime \<Rightarrow> time \<Rightarrow> nat \<Rightarrow> PaperState \<Rightarrow> PaperTrade list \<Rightarrow> jsnum \<Rightarrow> jsnum \<Rightarrow> ExitReason
     \<Rightarrow> Disk \<Rightarrow> PaperState \<times> PaperTrade list \<times> Disk" where
  "closeTrade rt now i state trades exitApr' exitZScore' exitReason' disk =
     (if i < length trades then
        (let (t1, state1) =
               closeTradeObj rt now (trades ! i) state exitApr' exitZScore' exitReason';
             trades1 = trades[i := t1];
             disk1 = saveTrades trades1 disk;
             (state2, disk2) = saveState now state1 disk1
         in (state2, trades1, disk2))
      else (state, trades, disk))"

subsection \<open>Sequences of operations\<close>

datatype Op =
    OpenOp time string LeverageConfig TradeAlert RiskConfig "jsnum option"
  | CloseOp time nat jsnum jsnum ExitReason

type_synonym World = "PaperState \<times> PaperTrade list \<times> Disk"

fun step :: "Runtime \<Rightarrow> World \<Rightarrow> Op \<Rightarrow> World" where
  "step rt (state, trades, disk) (OpenOp now newId lc alert rc psize) =
     snd (openTrade rt now newId lc alert state trades rc psize disk)"
| "step rt (state, trades, disk) (CloseOp now i exitApr' exitZScore' exitReason') =
     closeTrade rt now i state trades exitApr' exitZScore' exitReason' disk"

definition run :: "Runtime \<Rightarrow> World \<Rightarrow> Op list \<Rightarrow> World" where
  "run rt w ops = foldl (step rt) w ops"

definition emptyDisk :: Disk where
  "emptyDisk =
     \<lparr>dataDir = False, tradesFile = None, stateFile = None, snapshotsFile = None,
      alertsLogFile = None\<rparr>"

text \<open>The world at first use: no file, the state that \<open>loadState\<close> makes up, no trade.\<close>

definition initialWorld :: "jsnum \<Rightarrow> time \<Rightarrow> World" where
  "initialWorld c now = (initialState c now, [], emptyDisk)"

text \<open>
  \<open>closesOpenOnly\<close>: along the sequence, every \<open>closeTrade\<close> is given a trade of the ledger
  whose status is \<open>OPEN\<close>, which the callers in \<open>cli.ts\<close> check before the call.
\<close>

fun closesOpenOnly :: "Runtime \<Rightarrow> World \<Rightarrow> Op list \<Rightarrow> bool" where
  "closesOpenOnly rt w [] = True"
| "closesOpenOnly rt w (OpenOp now newId lc alert rc psize # ops) =
     closesOpenOnly rt (step rt w (OpenOp now newId lc alert rc psize)) ops"
| "closesOpenOnly rt w (CloseOp now i a z r # ops) =
     (i < length (fst (snd w)) \<and> status (fst (snd w) ! i) = OPEN
      \<and> closesOpenOnly rt (step rt w (CloseOp now i a z r)) ops)"

text \<open>
  \<open>closedInOrder\<close>: the trades that the \<open>closeTrade\<close> calls of the sequence closed, each
  as its call left it, in the order of the calls.
\<close>

fun closedInOrder :: "Runtime \<Rightarrow> World \<Rightarrow> Op list \<Rightarrow> PaperTrade list" where
  "closedInOrder rt w [] = []"
| "closedInOrder rt w (OpenOp now newId lc alert rc psize # ops) =
     closedInOrder rt (step rt w (OpenOp now newId lc alert rc psize)) ops"
| "closedInOrder rt w (CloseOp now i a z r # ops) =
     (if i < length (fst (snd w))
      then [fst (snd (step rt w (CloseOp now i a z r))) ! i]
      else [])
     @ closedInOrder rt (step rt w (CloseOp now i a z r)) ops"

section \<open>metrics.ts\<close>

record PrimaryMetrics =
  winRate :: jsnum
  avgWinLossRatio :: jsnum
  sharpeRatio :: jsnum
  maxDrawdownPct :: jsnum
  totalRealizedPnl :: jsnum
  totalUnrealizedPnl :: jsnum
  totalTrades :: nat
  wins :: nat
  losses :: nat

subsection \<open>calculateSharpeRatio\<close>

text \<open>
  \<open>dailyPnl[date] = (dailyPnl[date] ?? 0) + v\<close> on an object whose keys are date strings:
  an association list in insertion order, which is the order of \<open>Object.values\<close>.
\<close>

fun addDaily :: "Runtime \<Rightarrow> (int \<times> jsnum) list \<Rightarrow> int \<Rightarrow> jsnum \<Rightarrow> (int \<times> jsnum) list" where
  "addDaily rt [] d v = [(d, js_add rt (Num 0) v)]"
| "addDaily rt ((k, x) # m) d v =
     (if k = d then (k, js_add rt x v) # m else (k, x) # addDaily rt m d v)"

definition groupDaily :: "Runtime \<Rightarrow> PaperTrade list \<Rightarrow> (int \<times> jsnum) list" where
  "groupDaily rt closedTrades =
     foldl (\<lambda>m t. case exitTime t of
                     None \<Rightarrow> m
                   | Some e \<Rightarrow> addDaily rt m (isoDay e) (pnlOr0 t))
       [] closedTrades"

definition calculateSharpeRatio :: "Runtime \<Rightarrow> PaperTrade list \<Rightarrow> PaperState \<Rightarrow> jsnum" where
  "calculateSharpeRatio rt closedTrades state =
     (if length closedTrades < 2 then Num 0
      else
        (let dailyReturns = map snd (groupDaily rt closedTrades)
         in if length dailyReturns < 2 then Num 0
            else
              (let n = ofNat (length dailyReturns);
                   mean = js_div rt (sumBy rt (\<lambda>r. r) dailyReturns) n;
                   variance = js_div rt
                                (sumBy rt (\<lambda>r. js_pow2 rt (js_sub rt r mean)) dailyReturns) n;
                   sd = js_sqrt rt variance
               in if js_eq sd (Num 0) then Num 0
                  else
                    (let annualizedReturn = js_mul rt mean (Num 365);
                         annualizedStdDev = js_mul rt sd (js_sqrt rt (Num 365))
                     in js_div rt annualizedReturn annualizedStdDev))))"

subsection \<open>calculateMaxDrawdown\<close>

definition drawdownStep ::
  "Runtime \<Rightarrow> jsnum \<times> jsnum \<times> jsnum \<Rightarrow> PaperTrade \<Rightarrow> jsnum \<times> jsnum \<times> jsnum" where
  "drawdownStep rt acc t =
     (case acc of (equity0, peak0, maxDD0) \<Rightarrow>
        (let equity1 = js_add rt equity0 (pnlOr0 t);
             peak1 = (if js_gt equity1 peak0 then equity1 else peak0);
             drawdown = js_div rt (js_sub rt peak1 equity1) peak1;
             maxDD1 = (if js_gt drawdown maxDD0 then drawdown else maxDD0)
         in (equity1, peak1, maxDD1)))"

text \<open>\<open>Array.prototype.sort\<close> is stable, as \<open>sort_key\<close> is.\<close>

definition calculateMaxDrawdown :: "Runtime \<Rightarrow> PaperTrade list \<Rightarrow> PaperState \<Rightarrow> jsnum" where
  "calculateMaxDrawdown rt closedTrades state =
     (if length closedTrades = 0 then Num 0
      else
        (let sortedTrades = sort_key exitDate (filter (\<lambda>t. exitTime t \<noteq> None) closedTrades);
             acc = foldl (drawdownStep rt)
                     (startingCapital state, startingCapital state, Num 0) sortedTrades
         in case acc of (equity1, peak1, maxDD) \<Rightarrow> js_mul rt maxDD (Num 100)))"

subsection \<open>calculatePrimaryMetrics\<close>

definition calculatePrimaryMetrics ::
  "Runtime \<Rightarrow> PaperTrade list \<Rightarrow> PaperState \<Rightarrow> PrimaryMetrics" where
  "calculatePrimaryMetrics rt trades state =
     (let closedTrades = getClosedTrades trades;
          openTrades = getOpenTrades trades state;
          winsL = filter (\<lambda>t. js_gt (pnlOr0 t) (Num 0)) closedTrades;
          lossesL = filter (\<lambda>t. js_le (pnlOr0 t) (Num 0)) closedTrades;
          winRate' = (if length closedTrades > 0
                      then js_mul rt (js_div rt (ofNat (length winsL))
                                        (ofNat (length closedTrades))) (Num 100)
                      else Num 0);
          avgWin = (if length winsL > 0
                    then js_div rt (sumBy rt pnlOr0 winsL) (ofNat (length winsL))
                    else Num 0);
          avgLoss = (if length lossesL > 0
                     then js_abs (js_div rt (sumBy rt pnlOr0 lossesL) (ofNat (length lossesL)))
                     else Num 1);
          avgWinLossRatio' = (if js_gt avgLoss (Num 0) then js_div rt avgWin avgLoss
                              else avgWin);
          sharpeRatio' = calculateSharpeRatio rt closedTrades state;
          maxDrawdown' = calculateMaxDrawdown rt closedTrades state;
          totalRealizedPnl' = sumBy rt pnlOr0 closedTrades;
          totalUnrealizedPnl' = sumBy rt unrealizedPnl openTrades
      in \<lparr>winRate = winRate',
          avgWinLossRatio = avgWinLossRatio',
          sharpeRatio = sharpeRatio',
          maxDrawdownPct = maxDrawdown',
          totalRealizedPnl = totalRealizedPnl',
          totalUnrealizedPnl = totalUnrealizedPnl',
          totalTrades = length closedTrades,
          wins = length winsL,
          losses = length lossesL\<rparr>)"

subsection \<open>calculateEdgeDecay and calculateMetaMetrics\<close>

datatype Trend = improving | stable | declining

record EdgeDecay =
  winRateTrend :: Trend
  sharpeTrend :: Trend
  last30DaysWinRate :: jsnum
  previous30DaysWinRate :: jsnum

record MetaMetrics =
  edgeDecay :: EdgeDecay
  btcCorrelation :: jsnum
  avgSlippage :: jsnum
  daysActive :: jsnum
  totalCapitalDeployed :: jsnum
  capitalEfficiency :: jsnum

text \<open>\<open>t.exitTime && p(new Date(t.exitTime))\<close>\<close>

definition exitSatisfies :: "(time \<Rightarrow> bool) \<Rightarrow> PaperTrade \<Rightarrow> bool" where
  "exitSatisfies p t = (case exitTime t of None \<Rightarrow> False | Some e \<Rightarrow> p e)"

text \<open>
  The two windows of \<open>calculateEdgeDecay\<close>, the arrays \<open>last30\<close> and \<open>prev30\<close>. The bounds
  are differences of epoch milliseconds, integers that the doubles hold exactly.
\<close>

definition last30 :: "time \<Rightarrow> PaperTrade list \<Rightarrow> PaperTrade list" where
  "last30 now closedTrades =
     (let thirtyDaysAgo = now - 30 * 24 * 60 * 60 * 1000
      in filter (exitSatisfies (\<lambda>e. e \<ge> thirtyDaysAgo)) closedTrades)"

definition prev30 :: "time \<Rightarrow> PaperTrade list \<Rightarrow> PaperTrade list" where
  "prev30 now closedTrades =
     (let thirtyDaysAgo = now - 30 * 24 * 60 * 60 * 1000;
          sixtyDaysAgo = now - 60 * 24 * 60 * 60 * 1000
      in filter (exitSatisfies (\<lambda>e. e \<ge> sixtyDaysAgo \<and> e < thirtyDaysAgo)) closedTrades)"

text \<open>\<open>xs.length > 0 ? (xs.filter(win).length / xs.length) * 100 : 0\<close>\<close>

definition winRateOf :: "Runtime \<Rightarrow> PaperTrade list \<Rightarrow> jsnum" where
  "winRateOf rt xs =
     (if length xs > 0
      then js_mul rt (js_div rt (ofNat (length (filter (\<lambda>t. js_gt (pnlOr0 t) (Num 0)) xs)))
                        (ofNat (length xs))) (Num 100)
      else Num 0)"

definition calculateEdgeDecay :: "Runtime \<Rightarrow> time \<Rightarrow> PaperTrade list \<Rightarrow> EdgeDecay" where
  "calculateEdgeDecay rt now closedTrades =
     (let last30DaysWinRate' = winRateOf rt (last30 now closedTrades);
          previous30DaysWinRate' = winRateOf rt (prev30 now closedTrades);
          winRateDiff = js_sub rt last30DaysWinRate' previous30DaysWinRate';
          trend0 = stable;
          trend1 = (if js_gt winRateDiff (Num 5) then improving else trend0);
          trend2 = (if js_lt winRateDiff (Num (- 5)) then declining else trend1);
          sharpeTrend' = stable
      in \<lparr>winRateTrend = trend2,
          sharpeTrend = sharpeTrend',
          last30DaysWinRate = last30DaysWinRate',
          previous30DaysWinRate = previous30DaysWinRate'\<rparr>)"

definition calculateMetaMetrics ::
  "Runtime \<Rightarrow> time \<Rightarrow> PaperTrade list \<Rightarrow> PaperState \<Rightarrow> MetaMetrics" where
  "calculateMetaMetrics rt now trades state =
     (let closedTrades = getClosedTrades trades;
          daysActive' = (case trades of
                           [] \<Rightarrow> Num 0
                         | firstTrade # _ \<Rightarrow>
                             js_floor (js_div rt (ofInt (now - entryTime firstTrade))
                                         (ofInt (1000 * 60 * 60 * 24))));
          edgeDecay' = calculateEdgeDecay rt now closedTrades;
          totalCapitalDeployed' = sumBy rt notionalSize trades;
          totalPnl = sumBy rt pnlOr0 closedTrades;
          capitalEfficiency' = (if js_gt totalCapitalDeployed' (Num 0)
                                then js_div rt totalPnl totalCapitalDeployed'
                                else Num 0)
      in \<lparr>edgeDecay = edgeDecay',
          btcCorrelation = Num 0,
          avgSlippage = Num 0,
          daysActive = daysActive',
          totalCapitalDeployed = totalCapitalDeployed',
          capitalEfficiency = capitalEfficiency'\<rparr>)"

subsection \<open>captureDailySnapshot\<close>

definition loadSnapshots :: "Disk \<Rightarrow> DailySnapshot list" where
  "loadSnapshots d = (case snapshotsFile d of Some xs \<Rightarrow> xs | None \<Rightarrow> [])"

text \<open>\<open>saveSnapshots\<close> does not create the directory: without it the write raises.\<close>

definition saveSnapshots :: "DailySnapshot list \<Rightarrow> Disk \<Rightarrow> js_error + Disk" where
  "saveSnapshots xs d = (if dataDir d then Inr (d\<lparr>snapshotsFile := Some xs\<rparr>) else Inl ENOENT)"

text \<open>\<open>xs.findIndex(p)\<close>, with \<open>None\<close> for -1.\<close>

fun findIndex :: "('a \<Rightarrow> bool) \<Rightarrow> 'a list \<Rightarrow> nat option" where
  "findIndex p [] = None"
| "findIndex p (x # xs) = (if p x then Some 0 else map_option Suc (findIndex p xs))"

text \<open>
  The outcome of \<open>captureDailySnapshot\<close> (the snapshot returned, or the exception of the
  write) and the disk after the call.
\<close>

definition captureDailySnapshot ::
  "Runtime \<Rightarrow> time \<Rightarrow> Disk \<Rightarrow> (js_error + DailySnapshot) \<times> Disk" where
  "captureDailySnapshot rt now disk =
     (let trades = loadTrades disk;
          state = loadState now disk;
          snapshots = loadSnapshots disk;
          today = isoDay now;
          existingIndex = findIndex (\<lambda>s. date s = today) snapshots;
          closedToday = filter (exitSatisfies (\<lambda>e. isoDay e = today)) trades;
          dailyPnl' = sumBy rt pnlOr0 closedToday;
          sevenDaysAgo = setDate rt now (Num (- 7));
          last7Days = filter (exitSatisfies
                        (\<lambda>e. case sevenDaysAgo of None \<Rightarrow> False | Some s \<Rightarrow> e \<ge> s)) trades;
          rolling7dWinRate' = winRateOf rt last7Days;
          snapshot = \<lparr>date = today,
                      equity = currentEquity state,
                      dailyPnl = dailyPnl',
                      openPositionsCount = length (openPositions state),
                      rolling7dWinRate = rolling7dWinRate',
                      rolling7dSharpe = Num 0\<rparr>;
          snapshots1 = (case existingIndex of
                          Some i \<Rightarrow> snapshots[i := snapshot]
                        | None \<Rightarrow> snapshots @ [snapshot])
      in case saveSnapshots snapshots1 disk of
           Inl e \<Rightarrow> (Inl e, disk)
         | Inr disk1 \<Rightarrow> (Inr snapshot, disk1))"

text \<open>
  The disk after a sequence of captures. Between two captures the other operations may
  have rewritten the files of the ledger and of the state (none of them writes the
  snapshot file): each capture comes with the clock and with the contents of these two
  files at that time.
\<close>

definition captures ::
  "Runtime \<Rightarrow> Disk \<Rightarrow> (time \<times> PaperTrade list option \<times> PaperState option) list \<Rightarrow> Disk" where
  "captures rt disk cs =
     foldl (\<lambda>d c. case c of (now, tf, sf) \<Rightarrow>
              snd (captureDailySnapshot rt now (d\<lparr>tradesFile := tf, stateFile := sf\<rparr>)))
       disk cs"

section \<open>The claims in the words of the specification\<close>

text \<open>
  The starting capital plus the sum of \<open>realizedPnl\<close> over the trades with status
  \<open>CLOSED\<close>, summed in ledger order as the metrics sum it.
\<close>

definition closedPnlSum :: "Runtime \<Rightarrow> PaperTrade list \<Rightarrow> jsnum" where
  "closedPnlSum rt trades = sumBy rt pnlOr0 (getClosedTrades trades)"

text \<open>The real that a finite number denotes.\<close>

fun isNum :: "jsnum \<Rightarrow> bool" where
  "isNum (Num a) = True"
| "isNum PosInf = False"
| "isNum NegInf = False"
| "isNum NaN = False"

fun theNum :: "jsnum \<Rightarrow> real" where
  "theNum (Num a) = a"
| "theNum PosInf = 0"
| "theNum NegInf = 0"
| "theNum NaN = 0"

text \<open>The most recent \<open>n\<close> entries of a list in ledger order: its last \<open>n\<close> elements.\<close>

definition mostRecent :: "nat \<Rightarrow> 'a list \<Rightarrow> 'a list" where
  "mostRecent n xs = drop (length xs - n) xs"

definition isLoss :: "PaperTrade \<Rightarrow> bool" where
  "isLoss t = (case realizedPnl t of None \<Rightarrow> False | Some p \<Rightarrow> js_lt p (Num 0))"

text \<open>
  The cooldown rule. Take the most recent \<open>consecutiveLossLimit\<close> closed trades of the
  instrument; that many exist (the limit is a whole number, at least 1), all are losses,
  and the clock is before the end of the cooldown: the date that \<open>setDate\<close> makes of the
  exit time of the last of them and \<open>cooldownDays\<close>, in the local time of the host. The
  exit time of the last trade is read as the source reads it (\<open>exitDate\<close>).
\<close>

definition cooldownEndOf :: "Runtime \<Rightarrow> PaperTrade list \<Rightarrow> string \<Rightarrow> RiskConfig \<Rightarrow> time option" where
  "cooldownEndOf rt trades c rc =
     setDate rt (exitDate (last (filter (\<lambda>t. coin t = c \<and> status t = CLOSED) trades)))
       (cooldownDays rc)"

definition cooldownActive ::
  "Runtime \<Rightarrow> time \<Rightarrow> PaperTrade list \<Rightarrow> string \<Rightarrow> RiskConfig \<Rightarrow> bool" where
  "cooldownActive rt now trades c rc =
     (let closedOnCoin = filter (\<lambda>t. coin t = c \<and> status t = CLOSED) trades
      in case consecutiveLossLimit rc of
           Num r \<Rightarrow>
             0 < r \<and> r = of_int \<lfloor>r\<rfloor> \<and> nat \<lfloor>r\<rfloor> \<le> length closedOnCoin
             \<and> list_all isLoss (mostRecent (nat \<lfloor>r\<rfloor>) closedOnCoin)
             \<and> (case cooldownEndOf rt trades c rc of
                  None \<Rightarrow> False
                | Some cooldownEnd \<Rightarrow> now < cooldownEnd)
         | PosInf \<Rightarrow> False
         | NegInf \<Rightarrow> False
         | NaN \<Rightarrow> False)"

text \<open>
  The four checks that \<open>canOpenTrade\<close> makes before the cooldown, all passing: each is
  the negation of the condition of the source, on the numbers that the source computes.
\<close>

definition earlierChecksPass ::
  "Runtime \<Rightarrow> PaperState \<Rightarrow> PaperTrade list \<Rightarrow> string \<Rightarrow> RiskConfig \<Rightarrow> bool" where
  "earlierChecksPass rt state trades c rc =
     (\<not> js_ge (ofNat (length (openPositions state))) (maxConcurrentPositions rc)
      \<and> \<not> list_ex (\<lambda>t. coin t = c) (getOpenTrades trades state)
      \<and> \<not> js_ge (sumBy rt notionalSize (getOpenTrades trades state))
               (js_mul rt (currentEquity state) (maxTotalExposure rc))
      \<and> \<not> js_ge (js_div rt (js_sub rt (peakEquity state) (currentEquity state))
                    (peakEquity state))
               (js_abs (maxDrawdown rc)))"

definition rejected :: "js_error + OpenCheck \<Rightarrow> bool" where
  "rejected r = (case r of Inl e \<Rightarrow> False | Inr chk \<Rightarrow> \<not> allowed chk)"

text \<open>\<open>s.includes(sub)\<close>\<close>

fun contains :: "string \<Rightarrow> string \<Rightarrow> bool" where
  "contains [] sub = (sub = [])"
| "contains (x # xs) sub = (take (length sub) (x # xs) = sub \<or> contains xs sub)"

section \<open>Data for the examples\<close>

text \<open>
  An instance of the runtime for the examples: arithmetic without rounding error, and a
  host whose local time is UTC. It prints integers, \<open>toFixed\<close> and the dates of the years
  0000 to 9999 as the runtime does; \<open>String(x)\<close> of a finite number that is not integral
  is not modelled and is printed with two decimals. Its \<open>setDate\<close> is given for a whole
  number of days, which is all that the examples use, and is an invalid date otherwise.
\<close>

definition digitChar :: "nat \<Rightarrow> char" where
  "digitChar d = ''0123456789'' ! (d mod 10)"

function decimalNat :: "nat \<Rightarrow> string" where
  "decimalNat n =
     (if n < 10 then [digitChar n] else decimalNat (n div 10) @ [digitChar (n mod 10)])"
  by pat_completeness auto
termination
  by (relation "measure (\<lambda>n. n)") auto

declare decimalNat.simps [simp del]

definition padLeft0 :: "nat \<Rightarrow> string \<Rightarrow> string" where
  "padLeft0 k ds = replicate (k - length ds) (CHR ''0'') @ ds"

definition toFixedReal :: "real \<Rightarrow> nat \<Rightarrow> string" where
  "toFixedReal r k =
     (let a = \<bar>r\<bar> * 10 ^ k;
          n = nat \<lfloor>a + 1 / 2\<rfloor>;
          sign = (if r < 0 then ''-'' else [])
      in sign @ decimalNat (n div 10 ^ k)
           @ (if k = 0 then [] else ''.'' @ padLeft0 k (decimalNat (n mod 10 ^ k))))"

definition jsString :: "(real \<Rightarrow> string) \<Rightarrow> jsnum \<Rightarrow> string" where
  "jsString f x =
     (case x of Num r \<Rightarrow> f r | PosInf \<Rightarrow> ''Infinity'' | NegInf \<Rightarrow> ''-Infinity'' | NaN \<Rightarrow> ''NaN'')"

definition civilFromDays :: "int \<Rightarrow> int \<times> int \<times> int" where
  "civilFromDays days =
     (let z = days + 719468;
          era = z div 146097;
          doe = z mod 146097;
          yoe = (doe - doe div 1460 + doe div 36524 - doe div 146096) div 365;
          y = yoe + era * 400;
          doy = doe - (365 * yoe + yoe div 4 - yoe div 100);
          mp = (5 * doy + 2) div 153;
          d = doy - (153 * mp + 2) div 5 + 1;
          m = (if mp < 10 then mp + 3 else mp - 9)
      in (if m \<le> 2 then y + 1 else y, m, d))"

definition isoDateOf :: "time \<Rightarrow> string" where
  "isoDateOf t =
     (case civilFromDays (isoDay t) of
        (y, m, d) \<Rightarrow>
          padLeft0 4 (decimalNat (nat y)) @ ''-'' @ padLeft0 2 (decimalNat (nat m)) @ ''-''
            @ padLeft0 2 (decimalNat (nat d)))"

text \<open>
  \<open>setDate\<close> on a host in UTC, for a whole number of days: the same time of day that many
  days later, when that is within the range of \<open>Date\<close>.
\<close>

definition utcSetDate :: "time \<Rightarrow> jsnum \<Rightarrow> time option" where
  "utcSetDate t n =
     (case n of
        Num r \<Rightarrow>
          if r = of_int \<lfloor>r\<rfloor> \<and> \<bar>t + \<lfloor>r\<rfloor> * MS_PER_DAY\<bar> \<le> 8640000000000000
          then Some (t + \<lfloor>r\<rfloor> * MS_PER_DAY) else None
      | PosInf \<Rightarrow> None
      | NegInf \<Rightarrow> None
      | NaN \<Rightarrow> None)"

definition exampleRt :: Runtime where
  "exampleRt =
     \<lparr>rnd = Some,
      numStr = jsString (\<lambda>r. if r = of_int \<lfloor>r\<rfloor> then toFixedReal r 0 else toFixedReal r 2),
      toFixed = (\<lambda>x k. jsString (\<lambda>r. toFixedReal r k) x),
      isoDateStr = isoDateOf,
      setDate = utcSetDate\<rparr>"

text \<open>
  A runtime made exact: its arithmetic without rounding error and its host in UTC, its
  string conversions as they are.
\<close>

definition exactUtc :: "Runtime \<Rightarrow> Runtime" where
  "exactUtc rt = rt\<lparr>rnd := Some, setDate := utcSetDate\<rparr>"

text \<open>
  \<open>loadLeverageConfig()\<close> when no variable is set, and \<open>loadRiskConfig()\<close> with
  \<open>PAPER_MAX_POSITION_SIZE=0.25\<close>, \<open>PAPER_STOP_LOSS=-0.0625\<close> and
  \<open>PAPER_MAX_DRAWDOWN=-0.125\<close> (the defaults 0.20, -0.05 and -0.15 are not doubles) and
  the defaults otherwise.
\<close>

definition exampleRiskConfig :: RiskConfig where
  "exampleRiskConfig =
     \<lparr>maxPositionSize = Num 0.25, maxConcurrentPositions = Num 3, maxTotalExposure = Num 0.5,
      stopLossThreshold = Num (- 0.0625), maxDrawdown = Num (- 0.125), maxLeverage = Num 3,
      consecutiveLossLimit = Num 3, cooldownDays = Num 14\<rparr>"

definition defaultLeverageConfig :: LeverageConfig where
  "defaultLeverageConfig =
     \<lparr>leverageStrategy = ''fixed'', fixedLeverage = Num 1, leverageCap = Num 6\<rparr>"

definition signalConfig :: "jsnum \<Rightarrow> LeverageConfig" where
  "signalConfig cap =
     \<lparr>leverageStrategy = ''signal_strength'', fixedLeverage = Num 1, leverageCap = cap\<rparr>"

definition day :: "int \<Rightarrow> time" where
  "day n = n * MS_PER_DAY"

definition exampleAlert :: "string \<Rightarrow> TradeDirection \<Rightarrow> jsnum \<Rightarrow> TradeAlert" where
  "exampleAlert c dir apr =
     \<lparr>alertType = mean_reversion, alertCoin = c, alertDirection = dir, currentApr = apr,
      impliedApr = apr, zScore = Num 2, meanApr = Num 0.0625, stdDev = Num 0.0625,
      spread = Num 0, holdDays = Num 7, timestamp = 0\<rparr>"

text \<open>A closed trade: identifier, coin, entry and exit time, realized P&L.\<close>

definition closedTradeEx :: "string \<Rightarrow> string \<Rightarrow> time \<Rightarrow> time \<Rightarrow> jsnum \<Rightarrow> PaperTrade" where
  "closedTradeEx i c t0 t1 pnl =
     \<lparr>tradeId = i, coin = c, direction = SHORT, strategy = mean_reversion, status = CLOSED,
      entryTime = t0, entryApr = Num 0.125, entryImpliedApr = Num 0.125, entryZScore = Num 2,
      notionalSize = Num 1000, leverage = Num 1, targetHoldDays = Num 7,
      scheduledExitTime = t0 + 7 * MS_PER_DAY,
      exitTime = Some t1, exitApr = Some (Num 0.0625), exitZScore = Some (Num 0),
      exitReason = Some TIME_BASED, realizedPnl = Some pnl, unrealizedPnl = Num 0,
      fees = Num 2\<rparr>"

text \<open>An open trade: identifier, coin, entry time, notional, entry fee.\<close>

definition openTradeEx :: "string \<Rightarrow> string \<Rightarrow> time \<Rightarrow> jsnum \<Rightarrow> jsnum \<Rightarrow> PaperTrade" where
  "openTradeEx i c t0 notional fee =
     \<lparr>tradeId = i, coin = c, direction = SHORT, strategy = mean_reversion, status = OPEN,
      entryTime = t0, entryApr = Num 0.125, entryImpliedApr = Num 0.125, entryZScore = Num 2,
      notionalSize = notional, leverage = Num 1, targetHoldDays = Num 7,
      scheduledExitTime = t0 + 7 * MS_PER_DAY,
      exitTime = None, exitApr = None, exitZScore = None,
      exitReason = None, realizedPnl = None, unrealizedPnl = Num 0,
      fees = fee\<rparr>"

text \<open>Two closed trades with gains on two different days.\<close>

definition sharpeLedger :: "PaperTrade list" where
  "sharpeLedger =
     [closedTradeEx ''a'' ''BTC'' (day 80) (day 90) (Num 1),
      closedTradeEx ''b'' ''BTC'' (day 91) (day 95) (Num 3)]"

text \<open>
  The scenario of the specification: a SHORT on 10000 notional opened at 15% APR and
  closed 168 hours later at an observed rate of 5%.
\<close>

definition scenarioOpen :: Op where
  "scenarioOpen =
     OpenOp 0 ''t1'' defaultLeverageConfig (exampleAlert ''BTC'' SHORT (Num 0.15))
       exampleRiskConfig (Some (Num 10000))"

definition scenarioClose :: Op where
  "scenarioClose = CloseOp (168 * MS_PER_HOUR) 0 (Num 0.05) (Num 0) TIME_BASED"

definition scenarioTrade :: PaperTrade where
  "scenarioTrade =
     \<lparr>tradeId = ''t1'', coin = ''BTC'', direction = SHORT, strategy = mean_reversion,
      status = OPEN, entryTime = 0, entryApr = Num 0.15, entryImpliedApr = Num 0.15,
      entryZScore = Num 2, notionalSize = Num 10000, leverage = Num 1,
      targetHoldDays = Num 7, scheduledExitTime = day 7,
      exitTime = None, exitApr = None, exitZScore = None, exitReason = None,
      realizedPnl = None, unrealizedPnl = Num 0, fees = Num 10\<rparr>"

text \<open>Three open positions on three coins: the concurrent-position cap of 3 is reached.\<close>

definition fullLedger :: "PaperTrade list" where
  "fullLedger =
     [openTradeEx ''e1'' ''ETH'' (day 1) (Num 1000) (Num 1),
      openTradeEx ''e2'' ''SOL'' (day 2) (Num 1000) (Num 1),
      openTradeEx ''e3'' ''HYPE'' (day 3) (Num 1000) (Num 1)]"

definition fullState :: PaperState where
  "fullState = (initialState (Num 10000) 0)\<lparr>openPositions := [''e1'', ''e2'', ''e3'']\<rparr>"

text \<open>One open position of 4500 notional on an account of 10000.\<close>

definition exposureLedger :: "PaperTrade list" where
  "exposureLedger = [openTradeEx ''e1'' ''ETH'' (day 1) (Num 4500) (Num 4.5)]"

definition exposureState :: PaperState where
  "exposureState = (initialState (Num 10000) 0)\<lparr>openPositions := [''e1'']\<rparr>"

text \<open>
  Three closed trades on BTC, all losses, the last one closed on day 20000 (2024-10-04),
  and an earlier gain on ETH.
\<close>

definition lossLedger :: "PaperTrade list" where
  "lossLedger =
     [closedTradeEx ''w'' ''ETH'' (day 19970) (day 19977) (Num 12),
      closedTradeEx ''a'' ''BTC'' (day 19972) (day 19979) (Num (- 3)),
      closedTradeEx ''b'' ''BTC'' (day 19980) (day 19987) (Num (- 1)),
      closedTradeEx ''c'' ''BTC'' (day 19993) (day 20000) (Num (- 2))]"

definition lossState :: PaperState where
  "lossState =
     (initialState (Num 10000) 0)\<lparr>currentEquity := Num 10006, peakEquity := Num 10012\<rparr>"

text \<open>
  An open followed by closes of the same trade at an unchanged rate, and a close at a
  rate that is \<open>NaN\<close>.
\<close>

definition firstOpen :: Op where
  "firstOpen =
     OpenOp 0 ''t1'' defaultLeverageConfig (exampleAlert ''BTC'' SHORT (Num 0.125))
       exampleRiskConfig None"

definition closeFlat :: "ExitReason \<Rightarrow> Op" where
  "closeFlat r = CloseOp (day 7) 0 (Num 0.125) (Num 0) r"

definition closeNaN :: Op where
  "closeNaN = CloseOp (day 7) 0 NaN (Num 0) TIME_BASED"

definition firstTrade :: PaperTrade where
  "firstTrade =
     \<lparr>tradeId = ''t1'', coin = ''BTC'', direction = SHORT, strategy = mean_reversion,
      status = OPEN, entryTime = 0, entryApr = Num 0.125, entryImpliedApr = Num 0.125,
      entryZScore = Num 2, notionalSize = Num 1000, leverage = Num 1,
      targetHoldDays = Num 7, scheduledExitTime = day 7,
      exitTime = None, exitApr = None, exitZScore = None, exitReason = None,
      realizedPnl = None, unrealizedPnl = Num 0, fees = Num 1\<rparr>"

definition firstTradeClosed :: "jsnum \<Rightarrow> jsnum \<Rightarrow> jsnum \<Rightarrow> ExitReason \<Rightarrow> PaperTrade" where
  "firstTradeClosed f p a r =
     firstTrade\<lparr>fees := f, status := CLOSED, exitTime := Some (day 7), exitApr := Some a,
       exitZScore := Some (Num 0), exitReason := Some r, realizedPnl := Some p,
       unrealizedPnl := Num 0\<rparr>"

definition firstState :: "string list \<Rightarrow> jsnum \<Rightarrow> time \<Rightarrow> PaperState" where
  "firstState ops e t =
     \<lparr>openPositions = ops, currentEquity = e, startingCapital = Num 10000,
      peakEquity = Num 10000, lastUpdated = t\<rparr>"

text \<open>
  A snapshot file that holds the days 3, 5 and 4, in this order, in a directory that
  exists.
\<close>

definition snapshotEx :: "int \<Rightarrow> jsnum \<Rightarrow> DailySnapshot" where
  "snapshotEx d e =
     \<lparr>date = d, equity = e, dailyPnl = Num 0, openPositionsCount = 0,
      rolling7dWinRate = Num 0, rolling7dSharpe = Num 0\<rparr>"

definition snapshotDisk :: Disk where
  "snapshotDisk =
     \<lparr>dataDir = True, tradesFile = None, stateFile = None,
      snapshotsFile = Some [snapshotEx 3 (Num 9000), snapshotEx 5 (Num 9500),
                            snapshotEx 4 (Num 9200)],
      alertsLogFile = None\<rparr>"

section \<open>Helper lemmas\<close>

lemma js_rnd_exact: "rnd rt = Some \<Longrightarrow> js_rnd rt x = Num x"
  by (simp add: js_rnd_def)

lemma js_rnd_exampleRt [simp]: "js_rnd exampleRt x = Num x"
  by (simp add: js_rnd_exact exampleRt_def)

lemma js_rnd_exactUtc [simp]: "js_rnd (exactUtc rt) x = Num x"
  by (simp add: js_rnd_exact exactUtc_def)

lemma js_rnd_not_NaN [simp]: "js_rnd rt x \<noteq> NaN"
  by (simp add: js_rnd_def split: option.splits)

lemma js_rnd_zero [simp]: "js_rnd rt 0 = Num 0"
  by (simp add: js_rnd_def)

lemma js_le_refl: "x \<noteq> NaN \<Longrightarrow> js_le x x"
  by (simp add: js_le_def js_eq_def)

lemma js_lt_total: "x \<noteq> NaN \<Longrightarrow> y \<noteq> NaN \<Longrightarrow> js_lt x y \<or> js_le y x"
  by (cases x; cases y) (auto simp: js_le_def js_eq_def)

lemma js_lt_NaN [simp]: "\<not> js_lt NaN y" "\<not> js_lt x NaN"
  by (cases y, simp_all) (cases x, simp_all)

lemma js_le_NaN [simp]: "\<not> js_le NaN y" "\<not> js_le x NaN"
  by (simp_all add: js_le_def js_eq_def)

lemma js_le_trans: "js_le x y \<Longrightarrow> js_le y z \<Longrightarrow> js_le x z"
  by (cases x; cases y; cases z) (auto simp: js_le_def js_eq_def)

lemma foldl_js_add_sumBy:
  "foldl (\<lambda>sum t. js_add rt sum (f t)) a xs = foldl (js_add rt) a (map f xs)"
  by (induction xs arbitrary: a) simp_all

lemma contains_prefix: "contains (sub @ post) sub"
proof (cases "sub @ post")
  case Nil
  then show ?thesis by simp
next
  case (Cons x xs)
  have "take (length sub) (sub @ post) = sub" by simp
  then show ?thesis unfolding Cons by simp
qed

lemma contains_append: "contains (pre @ sub @ post) sub"
proof (induction pre)
  case Nil
  then show ?case by (simp add: contains_prefix)
next
  case (Cons a pre)
  then show ?case by simp
qed

lemma closedTradeEx_sel [simp]:
  "status (closedTradeEx i c t0 t1 pnl) = CLOSED"
  "coin (closedTradeEx i c t0 t1 pnl) = c"
  "tradeId (closedTradeEx i c t0 t1 pnl) = i"
  "exitTime (closedTradeEx i c t0 t1 pnl) = Some t1"
  "realizedPnl (closedTradeEx i c t0 t1 pnl) = Some pnl"
  "pnlOr0 (closedTradeEx i c t0 t1 pnl) = pnl"
  "exitDate (closedTradeEx i c t0 t1 pnl) = t1"
  "notionalSize (closedTradeEx i c t0 t1 pnl) = Num 1000"
  "entryTime (closedTradeEx i c t0 t1 pnl) = t0"
  by (simp_all add: closedTradeEx_def pnlOr0_def exitDate_def)

lemma openTradeEx_sel [simp]:
  "status (openTradeEx i c t0 n f) = OPEN"
  "coin (openTradeEx i c t0 n f) = c"
  "tradeId (openTradeEx i c t0 n f) = i"
  "exitTime (openTradeEx i c t0 n f) = None"
  "realizedPnl (openTradeEx i c t0 n f) = None"
  "pnlOr0 (openTradeEx i c t0 n f) = Num 0"
  "notionalSize (openTradeEx i c t0 n f) = n"
  "entryTime (openTradeEx i c t0 n f) = t0"
  by (simp_all add: openTradeEx_def pnlOr0_def)

lemma isoDay_day [simp]: "isoDay (day n) = n"
  by (simp add: isoDay_def day_def MS_PER_DAY_def)

lemma utcSetDate_day:
  "\<bar>(a + k) * MS_PER_DAY\<bar> \<le> 8640000000000000 \<Longrightarrow>
   utcSetDate (day a) (Num (of_int k)) = Some (day (a + k))"
  by (simp add: utcSetDate_def day_def algebra_simps)

section \<open>The leverage clamp\<close>

lemma signalStrengthLeverage_isNum: "isNum (signalStrengthLeverage z)"
  by (simp add: signalStrengthLeverage_def Let_def)

lemma profitStackMultiplier_isNum: "isNum (profitStackMultiplier rt cur start)"
  by (simp add: profitStackMultiplier_def Let_def)

lemma js_mul_isNum_not_NaN: "isNum x \<Longrightarrow> isNum y \<Longrightarrow> js_mul rt x y \<noteq> NaN"
  by (cases x; cases y) (simp_all add: js_mul_def)

lemma isNum_not_NaN: "isNum x \<Longrightarrow> x \<noteq> NaN"
  by (cases x) simp_all

text \<open>The leverage that the strategy selects, before the cap and the floor.\<close>

lemma strategy_leverage_not_NaN:
  assumes "leverageStrategy config = ''fixed'' \<longrightarrow> fixedLeverage config \<noteq> NaN"
  shows "(if leverageStrategy config = ''fixed'' then fixedLeverage config
          else if leverageStrategy config = ''signal_strength'' then signalStrengthLeverage z
          else if leverageStrategy config = ''profit_stack''
            then js_mul rt (Num 2) (profitStackMultiplier rt cur start)
          else if leverageStrategy config = ''combined''
            then js_mul rt (signalStrengthLeverage z) (profitStackMultiplier rt cur start)
          else Num 1) \<noteq> NaN"
  using assms
  by (simp add: js_mul_isNum_not_NaN signalStrengthLeverage_isNum profitStackMultiplier_isNum
      isNum_not_NaN)

lemma clamp_lower: "x \<noteq> NaN \<Longrightarrow> y \<noteq> NaN \<Longrightarrow> js_ge (js_max (js_min x y) (Num 1)) (Num 1)"
  by (cases x; cases y) (auto simp: js_ge_def js_le_def js_eq_def js_max_def js_min_def)

lemma clamp_upper:
  "x \<noteq> NaN \<Longrightarrow> y \<noteq> NaN \<Longrightarrow> js_le (js_max (js_min x y) (Num 1)) (js_max (Num 1) y)"
  by (cases x; cases y) (auto simp: js_le_def js_eq_def js_max_def js_min_def)

lemma clamp_upper_cap:
  "x \<noteq> NaN \<Longrightarrow> js_ge y (Num 1) \<Longrightarrow> js_le (js_max (js_min x y) (Num 1)) y"
  by (cases x; cases y) (auto simp: js_ge_def js_le_def js_eq_def js_max_def js_min_def)

lemma clamp_six: "js_ge y (Num 1) \<Longrightarrow> js_max (js_min (Num 6) y) (Num 1) = js_min (Num 6) y"
  by (cases y) (auto simp: js_ge_def js_le_def js_eq_def js_max_def js_min_def)

lemma clamp_NaN: "x = NaN \<or> y = NaN \<Longrightarrow> js_max (js_min x y) (Num 1) = NaN"
  by (auto simp: js_max_def js_min_def)

lemma calculateLeverage_lower:
  assumes "leverageCap config \<noteq> NaN"
    and "leverageStrategy config = ''fixed'' \<longrightarrow> fixedLeverage config \<noteq> NaN"
  shows "js_ge (calculateLeverage rt config z cur start) (Num 1)"
  unfolding calculateLeverage_def Let_def
  by (rule clamp_lower[OF strategy_leverage_not_NaN[OF assms(2)] assms(1)])

lemma calculateLeverage_upper:
  assumes "leverageCap config \<noteq> NaN"
    and "leverageStrategy config = ''fixed'' \<longrightarrow> fixedLeverage config \<noteq> NaN"
  shows "js_le (calculateLeverage rt config z cur start) (js_max (Num 1) (leverageCap config))"
  unfolding calculateLeverage_def Let_def
  by (rule clamp_upper[OF strategy_leverage_not_NaN[OF assms(2)] assms(1)])

lemma calculateLeverage_upper_cap:
  assumes "js_ge (leverageCap config) (Num 1)"
    and "leverageStrategy config = ''fixed'' \<longrightarrow> fixedLeverage config \<noteq> NaN"
  shows "js_le (calculateLeverage rt config z cur start) (leverageCap config)"
  unfolding calculateLeverage_def Let_def
  by (rule clamp_upper_cap[OF strategy_leverage_not_NaN[OF assms(2)] assms(1)])

lemma calculateLeverage_signal5:
  assumes "js_ge (leverageCap config) (Num 1)"
    and "leverageStrategy config = ''signal_strength''" and "js_abs z = Num 5"
  shows "calculateLeverage rt config z cur start = js_min (Num 6) (leverageCap config)"
  using assms(2,3) clamp_six[OF assms(1)]
  by (simp add: calculateLeverage_def Let_def signalStrengthLeverage_def js_ge_def js_le_def
      js_eq_def)

lemma calculateLeverage_NaN:
  assumes "leverageCap config = NaN
           \<or> leverageStrategy config = ''fixed'' \<and> fixedLeverage config = NaN"
  shows "calculateLeverage rt config z cur start = NaN"
  using assms unfolding calculateLeverage_def Let_def
  by (auto intro!: clamp_NaN)

text \<open>
  C3, as amended. For every configuration whose \<open>maxLeverage\<close> is not \<open>NaN\<close> (and whose
  \<open>fixedLeverage\<close> is not \<open>NaN\<close> when the strategy is \<open>fixed\<close>), any selector string, the
  unmapped ones included, every z-score and every pair of equities, the leverage is at
  least 1 and at most \<open>max(1, maxLeverage)\<close>: the floor of 1 is applied after the cap and
  wins over it. When the configured cap is at least 1 the result lies in
  \<open>[1, maxLeverage]\<close>, and for \<open>signal_strength\<close> with \<open>|z| = 5\<close> it is
  \<open>min(6, maxLeverage)\<close>. With a \<open>NaN\<close> in the configuration, which \<open>parseFloat\<close> gives
  for a variable that does not parse, the result is \<open>NaN\<close>.
\<close>

theorem calculateLeverage_clamp:
  "(leverageCap config \<noteq> NaN
      \<and> (leverageStrategy config = ''fixed'' \<longrightarrow> fixedLeverage config \<noteq> NaN) \<longrightarrow>
      js_ge (calculateLeverage rt config z cur start) (Num 1)
      \<and> js_le (calculateLeverage rt config z cur start) (js_max (Num 1) (leverageCap config))
      \<and> (js_ge (leverageCap config) (Num 1) \<longrightarrow>
           js_le (calculateLeverage rt config z cur start) (leverageCap config)
           \<and> (leverageStrategy config = ''signal_strength'' \<and> js_abs z = Num 5 \<longrightarrow>
                calculateLeverage rt config z cur start
                  = js_min (Num 6) (leverageCap config))))
   \<and> (leverageCap config = NaN
        \<or> leverageStrategy config = ''fixed'' \<and> fixedLeverage config = NaN \<longrightarrow>
      calculateLeverage rt config z cur start = NaN)"
  using calculateLeverage_lower [of config rt z cur start]
    calculateLeverage_upper [of config rt z cur start]
    calculateLeverage_upper_cap [of config rt z cur start]
    calculateLeverage_signal5 [of config z rt cur start]
    calculateLeverage_NaN [of config rt z cur start]
  by blast

theorem calculateLeverage_clamp_witness:
  "leverageCap (signalConfig (Num 3)) \<noteq> NaN
   \<and> js_ge (leverageCap (signalConfig (Num 3))) (Num 1)
   \<and> js_abs (Num (- 5)) = Num 5
   \<and> calculateLeverage exampleRt (signalConfig (Num 3)) (Num (- 5)) (Num 12000) (Num 10000)
       = Num 3
   \<and> calculateLeverage exampleRt (signalConfig NaN) (Num (- 5)) (Num 12000) (Num 10000) = NaN"
  using calculateLeverage_clamp
          [of "signalConfig (Num 3)" exampleRt "Num (- 5)" "Num 12000" "Num 10000"]
        calculateLeverage_clamp
          [of "signalConfig NaN" exampleRt "Num (- 5)" "Num 12000" "Num 10000"]
  by (simp add: signalConfig_def js_ge_def js_le_def js_eq_def js_min_def)

text \<open>
  The claim as stated fails for a cap below 1 (\<open>PAPER_MAX_LEVERAGE=0.5\<close>): the result is
  1, above the cap, and differs from \<open>min(6, maxLeverage)\<close>.
\<close>

theorem calculateLeverage_cap_below_one_counterexample:
  "calculateLeverage exampleRt (signalConfig (Num (1 / 2))) (Num 5) (Num 10000) (Num 10000)
     = Num 1
   \<and> \<not> js_le (calculateLeverage exampleRt (signalConfig (Num (1 / 2))) (Num 5) (Num 10000)
               (Num 10000))
            (leverageCap (signalConfig (Num (1 / 2))))
   \<and> calculateLeverage exampleRt (signalConfig (Num (1 / 2))) (Num 5) (Num 10000) (Num 10000)
       \<noteq> js_min (Num 6) (leverageCap (signalConfig (Num (1 / 2))))"
  by (simp add: calculateLeverage_def Let_def signalStrengthLeverage_def signalConfig_def
      js_ge_def js_le_def js_eq_def js_min_def js_max_def)

section \<open>openTrade and closeTrade, one call\<close>

lemma openTrade_world:
  "snd (openTrade rt now newId lc alert state trades rc psize disk)
     = (state, trades, logAlert now alert disk)
   \<or> (\<exists>t d. snd (openTrade rt now newId lc alert state trades rc psize disk)
              = (state\<lparr>openPositions := openPositions state @ [newId], lastUpdated := now\<rparr>,
                 trades @ [t], d)
            \<and> status t = OPEN)"
proof (cases "canOpenTrade rt now state trades (alertCoin alert) rc")
  case (Inl e)
  then show ?thesis by (simp add: openTrade_def Let_def)
next
  case (Inr chk)
  show ?thesis
  proof (cases "allowed chk")
    case False
    with Inr show ?thesis by (simp add: openTrade_def Let_def)
  next
    case True
    show ?thesis
    proof (cases "setDate rt now (holdDays alert)")
      case None
      with Inr True show ?thesis by (simp add: openTrade_def Let_def)
    next
      case (Some e)
      with Inr True show ?thesis
        by (simp add: openTrade_def Let_def saveState_def)
    qed
  qed
qed

lemma openTrade_state:
  "fst (snd (openTrade rt now newId lc alert state trades rc psize disk)) = state
   \<or> fst (snd (openTrade rt now newId lc alert state trades rc psize disk))
       = state\<lparr>openPositions := openPositions state @ [newId], lastUpdated := now\<rparr>"
  using openTrade_world [of rt now newId lc alert state trades rc psize disk]
  by auto

lemma openTrade_ledger:
  "fst (snd (snd (openTrade rt now newId lc alert state trades rc psize disk))) = trades
   \<or> (\<exists>t. fst (snd (snd (openTrade rt now newId lc alert state trades rc psize disk)))
              = trades @ [t] \<and> status t = OPEN)"
  using openTrade_world [of rt now newId lc alert state trades rc psize disk]
  by auto

lemma openTrade_equity:
  "currentEquity (fst (snd (openTrade rt now newId lc alert state trades rc psize disk)))
     = currentEquity state"
  "startingCapital (fst (snd (openTrade rt now newId lc alert state trades rc psize disk)))
     = startingCapital state"
  "peakEquity (fst (snd (openTrade rt now newId lc alert state trades rc psize disk)))
     = peakEquity state"
  using openTrade_state [of rt now newId lc alert state trades rc psize disk]
  by auto

lemma openTrade_closed:
  "getClosedTrades (fst (snd (snd (openTrade rt now newId lc alert state trades rc psize disk))))
     = getClosedTrades trades"
  using openTrade_ledger [of rt now newId lc alert state trades rc psize disk]
  by (auto simp: getClosedTrades_def)

lemma closeTradeObj_trade:
  "status (fst (closeTradeObj rt now t state a z r)) = CLOSED"
  "realizedPnl (fst (closeTradeObj rt now t state a z r))
     = Some (js_sub rt
               (calculatePnl rt t a (js_div rt (ofInt (now - entryTime t)) (ofInt MS_PER_HOUR)))
               (js_add rt (fees t) (js_mul rt (notionalSize t) (TAKER_FEE_RATE rt))))"
  "fees (fst (closeTradeObj rt now t state a z r))
     = js_add rt (fees t) (js_mul rt (notionalSize t) (TAKER_FEE_RATE rt))"
  "unrealizedPnl (fst (closeTradeObj rt now t state a z r)) = Num 0"
  "exitTime (fst (closeTradeObj rt now t state a z r)) = Some now"
  by (simp_all add: closeTradeObj_def Let_def)

lemma closeTradeObj_state:
  "currentEquity (snd (closeTradeObj rt now t state a z r))
     = js_add rt (currentEquity state) (pnlOr0 (fst (closeTradeObj rt now t state a z r)))"
  "startingCapital (snd (closeTradeObj rt now t state a z r)) = startingCapital state"
  "peakEquity (snd (closeTradeObj rt now t state a z r))
     = (if js_gt (currentEquity (snd (closeTradeObj rt now t state a z r))) (peakEquity state)
        then currentEquity (snd (closeTradeObj rt now t state a z r))
        else peakEquity state)"
  "openPositions (snd (closeTradeObj rt now t state a z r))
     = filter (\<lambda>i. i \<noteq> tradeId t) (openPositions state)"
  by (simp_all add: closeTradeObj_def Let_def pnlOr0_def)

lemma closeTrade_in_range:
  assumes "i < length trades"
  shows "closeTrade rt now i state trades a z r disk
    = ((snd (closeTradeObj rt now (trades ! i) state a z r))\<lparr>lastUpdated := now\<rparr>,
       trades[i := fst (closeTradeObj rt now (trades ! i) state a z r)],
       (ensureDataDir
          (saveTrades (trades[i := fst (closeTradeObj rt now (trades ! i) state a z r)]) disk))
         \<lparr>stateFile := Some ((snd (closeTradeObj rt now (trades ! i) state a z r))
                                \<lparr>lastUpdated := now\<rparr>)\<rparr>)"
  using assms by (simp add: closeTrade_def saveState_def Let_def split: prod.splits)

lemma closeTrade_out_of_range:
  "\<not> i < length trades \<Longrightarrow> closeTrade rt now i state trades a z r disk = (state, trades, disk)"
  by (simp add: closeTrade_def)

lemma step_open_facts:
  "currentEquity (fst (step rt (s, ts, d) (OpenOp now newId lc alert rc psize))) = currentEquity s"
  "startingCapital (fst (step rt (s, ts, d) (OpenOp now newId lc alert rc psize)))
     = startingCapital s"
  "peakEquity (fst (step rt (s, ts, d) (OpenOp now newId lc alert rc psize))) = peakEquity s"
  "getClosedTrades (fst (snd (step rt (s, ts, d) (OpenOp now newId lc alert rc psize))))
     = getClosedTrades ts"
  by (simp_all add: openTrade_equity openTrade_closed)

lemma step_close_facts:
  assumes "i < length ts"
  shows "currentEquity (fst (step rt (s, ts, d) (CloseOp now i a z r)))
           = js_add rt (currentEquity s) (pnlOr0 (fst (closeTradeObj rt now (ts ! i) s a z r)))"
    and "startingCapital (fst (step rt (s, ts, d) (CloseOp now i a z r))) = startingCapital s"
    and "fst (snd (step rt (s, ts, d) (CloseOp now i a z r)))
           = ts[i := fst (closeTradeObj rt now (ts ! i) s a z r)]"
    and "peakEquity (fst (step rt (s, ts, d) (CloseOp now i a z r)))
           = (if js_gt (currentEquity (fst (step rt (s, ts, d) (CloseOp now i a z r))))
                   (peakEquity s)
              then currentEquity (fst (step rt (s, ts, d) (CloseOp now i a z r)))
              else peakEquity s)"
  using assms by (simp_all add: closeTrade_in_range closeTradeObj_state)

lemma step_startingCapital: "startingCapital (fst (step rt w op)) = startingCapital (fst w)"
proof (cases w)
  case (fields s ts d)
  show ?thesis
  proof (cases op)
    case (OpenOp now newId lc alert rc psize)
    then show ?thesis by (simp add: fields openTrade_equity)
  next
    case (CloseOp now i a z r)
    then show ?thesis
      by (cases "i < length ts")
         (simp_all add: fields closeTrade_in_range closeTradeObj_state closeTrade_out_of_range)
  qed
qed

lemma run_startingCapital: "startingCapital (fst (run rt w ops)) = startingCapital (fst w)"
proof (induction ops arbitrary: w)
  case Nil
  then show ?case by (simp add: run_def)
next
  case (Cons op ops)
  from Cons.IH[of "step rt w op"] show ?case
    by (simp add: run_def step_startingCapital)
qed

lemma run_Cons: "run rt w (op # ops) = run rt (step rt w op) ops"
  by (simp add: run_def)

lemma run_append: "run rt w (ops @ ops') = run rt (run rt w ops) ops'"
  by (simp add: run_def)

section \<open>Equity over sequences of operations\<close>

lemma run_equity_fold:
  "currentEquity (fst (run rt w ops))
     = foldl (js_add rt) (currentEquity (fst w)) (map pnlOr0 (closedInOrder rt w ops))"
proof (induction ops arbitrary: w)
  case Nil
  then show ?case by (simp add: run_def)
next
  case (Cons op ops)
  obtain s ts d where w: "w = (s, ts, d)" by (cases w)
  show ?case
  proof (cases op)
    case (OpenOp now newId lc alert rc psize)
    have "currentEquity (fst (step rt w op)) = currentEquity (fst w)"
      unfolding w OpenOp by (simp add: openTrade_equity)
    with Cons.IH[of "step rt w op"] show ?thesis
      by (simp add: run_Cons OpenOp)
  next
    case (CloseOp now i a z r)
    show ?thesis
    proof (cases "i < length ts")
      case True
      have e: "currentEquity (fst (step rt w op))
                 = js_add rt (currentEquity (fst w))
                     (pnlOr0 (fst (snd (step rt w op)) ! i))"
        unfolding w CloseOp using True
        by (simp add: closeTrade_in_range closeTradeObj_state)
      from Cons.IH[of "step rt w op"] e True show ?thesis
        by (simp add: run_Cons CloseOp w)
    next
      case False
      then have "step rt w op = w"
        unfolding w CloseOp by (simp add: closeTrade_out_of_range)
      with Cons.IH[of w] False show ?thesis
        by (simp add: run_Cons CloseOp w)
    qed
  qed
qed

lemma mset_filter_update:
  assumes "i < length xs" and "\<not> P (xs ! i)" and "P y"
  shows "mset (filter P (xs[i := y])) = add_mset y (mset (filter P xs))"
  using assms
proof (induction xs arbitrary: i)
  case Nil
  then show ?case by simp
next
  case (Cons x xs)
  then show ?case by (cases i) simp_all
qed

lemma run_closed_mset:
  "closesOpenOnly rt w ops \<Longrightarrow>
   mset (getClosedTrades (fst (snd (run rt w ops))))
     = mset (getClosedTrades (fst (snd w))) + mset (closedInOrder rt w ops)"
proof (induction ops arbitrary: w)
  case Nil
  then show ?case by (simp add: run_def)
next
  case (Cons op ops)
  obtain s ts d where w: "w = (s, ts, d)" by (cases w)
  show ?case
  proof (cases op)
    case (OpenOp now newId lc alert rc psize)
    from Cons.prems have ok: "closesOpenOnly rt (step rt w op) ops"
      by (simp add: OpenOp)
    have "getClosedTrades (fst (snd (step rt w op))) = getClosedTrades (fst (snd w))"
      unfolding w OpenOp by (simp add: openTrade_closed)
    with Cons.IH[OF ok] show ?thesis
      by (simp add: run_Cons OpenOp)
  next
    case (CloseOp now i a z r)
    from Cons.prems have i: "i < length ts" "status (ts ! i) = OPEN"
      and ok: "closesOpenOnly rt (step rt w op) ops"
      by (simp_all add: CloseOp w)
    have l: "fst (snd (step rt w op)) = ts[i := fst (closeTradeObj rt now (ts ! i) s a z r)]"
      unfolding w CloseOp using i(1) by (simp add: closeTrade_in_range)
    have "mset (filter (\<lambda>t. status t = CLOSED)
                  (ts[i := fst (closeTradeObj rt now (ts ! i) s a z r)]))
            = add_mset (fst (closeTradeObj rt now (ts ! i) s a z r))
                (mset (filter (\<lambda>t. status t = CLOSED) ts))"
      by (rule mset_filter_update) (use i in \<open>simp_all add: closeTradeObj_trade\<close>)
    then have "mset (getClosedTrades (fst (snd (step rt w op))))
            = add_mset (fst (snd (step rt w op)) ! i) (mset (getClosedTrades ts))"
      unfolding l getClosedTrades_def using i(1) by simp
    with Cons.IH[OF ok] i(1) show ?thesis
      by (simp add: run_Cons CloseOp w)
  qed
qed

text \<open>With exact arithmetic on finite numbers, the order of a sum does not matter.\<close>

lemma foldl_js_add_exact:
  assumes "rnd rt = Some" and "\<forall>x\<in>set xs. isNum x"
  shows "foldl (js_add rt) (Num a) xs = Num (a + sum_list (map theNum xs))"
  using assms(2)
proof (induction xs arbitrary: a)
  case Nil
  then show ?case by simp
next
  case (Cons x xs)
  from Cons.prems obtain b where b: "x = Num b" by (cases x) simp_all
  from Cons.prems have "\<forall>x\<in>set xs. isNum x" by simp
  from Cons.IH[OF this, of "a + b"] show ?case
    by (simp add: b js_rnd_exact[OF assms(1)] add.assoc)
qed

lemma sum_list_mset_cong:
  fixes f :: "'a \<Rightarrow> real"
  assumes "mset xs = mset ys"
  shows "sum_list (map f xs) = sum_list (map f ys)"
proof -
  have "mset (map f xs) = mset (map f ys)"
    using assms by (simp only: mset_map)
  then have "sum_mset (mset (map f xs)) = sum_mset (mset (map f ys))"
    by (rule arg_cong)
  then show ?thesis by (simp only: sum_mset_sum_list)
qed

lemma equity_exact:
  assumes ex: "rnd rt = Some"
    and ok: "closesOpenOnly rt (initialWorld (Num c) t0) ops"
    and fin: "\<forall>t\<in>set (getClosedTrades (fst (snd (run rt (initialWorld (Num c) t0) ops)))).
                isNum (pnlOr0 t)"
  shows "currentEquity (fst (run rt (initialWorld (Num c) t0) ops))
           = js_add rt (Num c)
               (closedPnlSum rt (fst (snd (run rt (initialWorld (Num c) t0) ops))))"
proof -
  define cl where "cl = getClosedTrades (fst (snd (run rt (initialWorld (Num c) t0) ops)))"
  define ord where "ord = closedInOrder rt (initialWorld (Num c) t0) ops"
  have "getClosedTrades (fst (snd (initialWorld (Num c) t0))) = []"
    by (simp add: initialWorld_def getClosedTrades_def)
  with run_closed_mset[OF ok] have m: "mset cl = mset ord"
    unfolding cl_def ord_def by simp
  then have "set cl = set ord" by (rule mset_eq_setD)
  with fin have fin1: "\<forall>x\<in>set (map pnlOr0 ord). isNum x"
    unfolding cl_def by simp
  have fin2: "\<forall>x\<in>set (map pnlOr0 cl). isNum x"
    using fin unfolding cl_def by simp
  have "sum_list (map (\<lambda>t. theNum (pnlOr0 t)) ord) = sum_list (map (\<lambda>t. theNum (pnlOr0 t)) cl)"
    by (rule sum_list_mset_cong[OF m[symmetric]])
  then have s: "sum_list (map theNum (map pnlOr0 ord)) = sum_list (map theNum (map pnlOr0 cl))"
    by (simp only: map_map o_def)
  have c0: "currentEquity (fst (initialWorld (Num c) t0)) = Num c"
    by (simp add: initialWorld_def initialState_def)
  have cp: "closedPnlSum rt (fst (snd (run rt (initialWorld (Num c) t0) ops)))
              = Num (0 + sum_list (map theNum (map pnlOr0 cl)))"
  proof -
    have "closedPnlSum rt (fst (snd (run rt (initialWorld (Num c) t0) ops)))
            = foldl (js_add rt) (Num 0) (map pnlOr0 cl)"
      unfolding closedPnlSum_def sumBy_def cl_def by (rule foldl_js_add_sumBy)
    also have "\<dots> = Num (0 + sum_list (map theNum (map pnlOr0 cl)))"
      by (rule foldl_js_add_exact[OF ex fin2])
    finally show ?thesis .
  qed
  have "currentEquity (fst (run rt (initialWorld (Num c) t0) ops))
          = foldl (js_add rt) (Num c) (map pnlOr0 ord)"
    unfolding ord_def using run_equity_fold[of rt "initialWorld (Num c) t0" ops]
    by (simp only: c0)
  also have "\<dots> = Num (c + sum_list (map theNum (map pnlOr0 ord)))"
    by (rule foldl_js_add_exact[OF ex fin1])
  also have "\<dots> = Num (c + sum_list (map theNum (map pnlOr0 cl)))"
    by (simp only: s)
  also have "\<dots> = js_add rt (Num c)
                        (closedPnlSum rt (fst (snd (run rt (initialWorld (Num c) t0) ops))))"
    by (simp only: cp js_add.simps js_rnd_exact[OF ex] add_0)
  finally show ?thesis .
qed

end
